theory Spec2Isabelle
  imports Complex_Main "HOL-Library.Sublist" "HOL-Library.Word"
begin

section \<open>JavaScript values, errors and strings\<close>

text \<open>
  The repository is JavaScript. A thrown \<open>Error\<close> is a value of \<open>js_error\<close>; an
  \<open>async\<close> function that may reject returns \<open>js_error + 'a\<close>, with \<open>Inl\<close> the
  rejection. \<open>TypeError\<close> is what the engine throws on a property read of
  \<open>null\<close>/\<open>undefined\<close> or on a call of something that is not a function; its text is
  engine specific and is kept only as a label.
\<close>

datatype js_error = Error string | TypeError string

fun message :: "js_error \<Rightarrow> string" where
  "message (Error m) = m"
| "message (TypeError m) = m"

text \<open>
  \<open>String.prototype.includes\<close>: \<open>str_includes s t\<close> is \<open>s.includes(t)\<close>, true when \<open>t\<close>
  occurs in \<open>s\<close> as a contiguous run.
\<close>

fun str_includes :: "'a list \<Rightarrow> 'a list \<Rightarrow> bool" where
  "str_includes [] t = (t = [])"
| "str_includes (c # s) t = (prefix t (c # s) \<or> str_includes s t)"

text \<open>
  Strings are lists of code units; the model keeps to code units below 256, which is what
  \<open>char\<close> holds. \<open>String.prototype.trim\<close> removes white space and line terminators at
  both ends; below 256 these are TAB, LF, VT, FF, CR, SPACE and NBSP.
\<close>

definition is_ws :: "char \<Rightarrow> bool" where
  "is_ws c = ((of_char c :: nat) \<in> {9, 10, 11, 12, 13, 32, 160})"

definition trim :: "string \<Rightarrow> string" where
  "trim s = rev (dropWhile is_ws (rev (dropWhile is_ws s)))"

text \<open>
  The values a request body or a parsed completion reply can hold (\<open>JSON.parse\<close>), and
  \<open>undefined\<close> for a property that is not there. Numbers are kept to integers: the
  handlers only test them for truthiness and compare them with \<open>0\<close>. An object is its
  list of properties, the first binding of a name being the property.
\<close>

datatype jsval =
    JUndefined
  | JNull
  | JBool bool
  | JNum int
  | JStr string
  | JArr "jsval list"
  | JObj "(string \<times> jsval) list"

fun truthy :: "jsval \<Rightarrow> bool" where
  "truthy JUndefined = False"
| "truthy JNull = False"
| "truthy (JBool b) = b"
| "truthy (JNum n) = (n \<noteq> 0)"
| "truthy (JStr s) = (s \<noteq> [])"
| "truthy (JArr xs) = True"
| "truthy (JObj fs) = True"

fun nullish :: "jsval \<Rightarrow> bool" where
  "nullish JUndefined = True"
| "nullish JNull = True"
| "nullish v = False"

text \<open>
  \<open>v.k\<close> for the data property names the handlers read (never an array index, never a
  method of a prototype): a \<open>TypeError\<close> on \<open>null\<close> and \<open>undefined\<close>, the own
  property of an object, \<open>length\<close> of an array or a string, \<open>undefined\<close> otherwise.
\<close>

fun js_get :: "jsval \<Rightarrow> string \<Rightarrow> js_error + jsval" where
  "js_get JUndefined k = Inl (TypeError (''Cannot read properties of undefined: '' @ k))"
| "js_get JNull k = Inl (TypeError (''Cannot read properties of null: '' @ k))"
| "js_get (JObj fs) k = Inr (case map_of fs k of None \<Rightarrow> JUndefined | Some v \<Rightarrow> v)"
| "js_get (JArr xs) k = Inr (if k = ''length'' then JNum (int (length xs)) else JUndefined)"
| "js_get (JStr s) k = Inr (if k = ''length'' then JNum (int (length s)) else JUndefined)"
| "js_get (JBool b) k = Inr JUndefined"
| "js_get (JNum n) k = Inr JUndefined"

text \<open>\<open>v?.k\<close>: \<open>undefined\<close> when \<open>v\<close> is \<open>null\<close> or \<open>undefined\<close>.\<close>

definition js_get_opt :: "jsval \<Rightarrow> string \<Rightarrow> jsval" where
  "js_get_opt v k = (case js_get v k of Inl e \<Rightarrow> JUndefined | Inr x \<Rightarrow> x)"

text \<open>\<open>a || b\<close>.\<close>

definition js_or :: "jsval \<Rightarrow> jsval \<Rightarrow> jsval" where
  "js_or a b = (if truthy a then a else b)"

text \<open>
  \<open>v.trim()\<close>: only a string has the method; on any other value that is not
  \<open>null\<close>/\<open>undefined\<close> the property is \<open>undefined\<close> or not a function, and the call
  throws.
\<close>

fun js_call_trim :: "jsval \<Rightarrow> js_error + jsval" where
  "js_call_trim (JStr s) = Inr (JStr (trim s))"
| "js_call_trim JUndefined = Inl (TypeError ''Cannot read properties of undefined: trim'')"
| "js_call_trim JNull = Inl (TypeError ''Cannot read properties of null: trim'')"
| "js_call_trim v = Inl (TypeError ''trim is not a function'')"

text \<open>\<open>v?.substring(0, n)\<close>.\<close>

fun js_call_substring_opt :: "jsval \<Rightarrow> nat \<Rightarrow> js_error + jsval" where
  "js_call_substring_opt (JStr s) n = Inr (JStr (take n s))"
| "js_call_substring_opt JUndefined n = Inr JUndefined"
| "js_call_substring_opt JNull n = Inr JUndefined"
| "js_call_substring_opt v n = Inl (TypeError ''substring is not a function'')"

section \<open>Effects: state, rejection and \<open>try\<close>/\<open>catch\<close>\<close>

text \<open>
  An \<open>async\<close> function over a state \<open>'s\<close> (a log of the external calls issued, a cache)
  returns its settled outcome and the new state. \<open>bnd\<close> is \<open>await\<close> followed by the rest
  of the body: a rejection skips the rest. \<open>try_catch\<close> is \<open>try { m } catch (e) { h e }\<close>;
  what \<open>m\<close> did to the state before it threw stays done.
\<close>

type_synonym ('s, 'a) eff = "'s \<Rightarrow> (js_error + 'a) \<times> 's"

definition ret :: "'a \<Rightarrow> ('s, 'a) eff" where
  "ret x = (\<lambda>s. (Inr x, s))"

definition throw :: "js_error \<Rightarrow> ('s, 'a) eff" where
  "throw e = (\<lambda>s. (Inl e, s))"

definition lift :: "js_error + 'a \<Rightarrow> ('s, 'a) eff" where
  "lift r = (\<lambda>s. (r, s))"

definition bnd :: "('s, 'a) eff \<Rightarrow> ('a \<Rightarrow> ('s, 'b) eff) \<Rightarrow> ('s, 'b) eff" where
  "bnd m f = (\<lambda>s. case m s of (Inl e, s') \<Rightarrow> (Inl e, s') | (Inr x, s') \<Rightarrow> f x s')"

definition try_catch :: "('s, 'a) eff \<Rightarrow> (js_error \<Rightarrow> ('s, 'a) eff) \<Rightarrow> ('s, 'a) eff" where
  "try_catch m h = (\<lambda>s. case m s of (Inl e, s') \<Rightarrow> h e s' | (Inr x, s') \<Rightarrow> (Inr x, s'))"

section \<open>The request handlers (generate-project/route.js, two versions)\<close>

text \<open>
  The world of one request. The four stage functions of \<open>utils/llm.js\<close> are one
  completion call each, and the two publish functions talk to Notion and GitHub: each
  is given by its outcome on the arguments it is called with. \<open>now\<close> is the clock.
\<close>

record env =
  interpretProject :: "jsval \<Rightarrow> jsval \<Rightarrow> js_error + jsval"
  generateTasksAndMilestones :: "jsval \<Rightarrow> js_error + jsval"
  assignTasksAndTimeline :: "jsval \<Rightarrow> jsval \<Rightarrow> jsval \<Rightarrow> js_error + jsval"
  generateArtifacts :: "jsval \<Rightarrow> jsval \<Rightarrow> jsval \<Rightarrow> jsval \<Rightarrow> js_error + jsval"
  createNotionPage :: "jsval \<Rightarrow> jsval \<Rightarrow> jsval \<Rightarrow> js_error + jsval"
  createGitHubRepo :: "jsval \<Rightarrow> jsval \<Rightarrow> jsval \<Rightarrow> js_error + jsval"
  now :: string

datatype ext_call =
    InterpretProject
  | GenerateTasksAndMilestones
  | AssignTasksAndTimeline
  | GenerateArtifacts
  | CreateNotionPage
  | CreateGitHubRepo

text \<open>\<open>await f(...)\<close> of an external function: the call is logged, its outcome returned.\<close>

definition await_call :: "ext_call \<Rightarrow> js_error + 'a \<Rightarrow> (ext_call list, 'a) eff" where
  "await_call c r = (\<lambda>cs. (r, cs @ [c]))"

record response =
  status :: nat
  body :: jsval

text \<open>\<open>Response.json(b, {status})\<close>; the status is 200 when none is given.\<close>

definition Response_json :: "jsval \<Rightarrow> nat \<Rightarrow> response" where
  "Response_json b st = \<lparr>status = st, body = b\<rparr>"

text \<open>
  Lines 13 to 27 of both handlers: the destructuring of the body and the two checks.
  \<open>Inl\<close> is the early \<open>return\<close> of a 400 response, \<open>Inr\<close> the three fields.
\<close>

definition check_request :: "jsval \<Rightarrow> js_error + (response + jsval \<times> jsval \<times> jsval)" where
  "check_request b =
     (case js_get b ''project_idea'' of Inl e \<Rightarrow> Inl e | Inr project_idea \<Rightarrow>
      case js_get b ''special_instructions'' of Inl e \<Rightarrow> Inl e | Inr special_instructions \<Rightarrow>
      case js_get b ''contributors'' of Inl e \<Rightarrow> Inl e | Inr contributors \<Rightarrow>
      if \<not> truthy project_idea then
        Inr (Inl (Response_json (JObj [(''error'', JStr ''Project idea is required'')]) 400))
      else case js_call_trim project_idea of Inl e \<Rightarrow> Inl e | Inr trimmed \<Rightarrow>
      if \<not> truthy trimmed then
        Inr (Inl (Response_json (JObj [(''error'', JStr ''Project idea is required'')]) 400))
      else if \<not> truthy contributors then
        Inr (Inl (Response_json
          (JObj [(''error'', JStr ''At least one contributor is required'')]) 400))
      else case js_get contributors ''length'' of Inl e \<Rightarrow> Inl e | Inr len \<Rightarrow>
      if len = JNum 0 then
        Inr (Inl (Response_json
          (JObj [(''error'', JStr ''At least one contributor is required'')]) 400))
      else Inr (Inr (project_idea, special_instructions, contributors)))"

text \<open>
  The two publish steps, each in its own \<open>try\<close>/\<open>catch\<close>: the URL stays \<open>null\<close> when
  the call throws.
\<close>

definition publish_notion :: "env \<Rightarrow> jsval \<Rightarrow> jsval \<Rightarrow> jsval \<Rightarrow> (ext_call list, jsval) eff" where
  "publish_notion w interpretation milestones assignments =
     try_catch
       (await_call CreateNotionPage (createNotionPage w interpretation milestones assignments))
       (\<lambda>error. ret JNull)"

definition publish_github :: "env \<Rightarrow> jsval \<Rightarrow> jsval \<Rightarrow> jsval \<Rightarrow> (ext_call list, jsval) eff" where
  "publish_github w interpretation artifacts milestones =
     try_catch
       (await_call CreateGitHubRepo (createGitHubRepo w interpretation artifacts milestones))
       (\<lambda>error. ret JNull)"

definition agent_insights_value :: jsval where
  "agent_insights_value = JObj
     [(''confidence_score'', JNum 85),
      (''web_search_performed'', JBool False),
      (''technical_research_conducted'', JBool True),
      (''market_analysis_performed'', JBool False),
      (''enhancement_applied'', JBool True)]"

text \<open>The response object of the enhanced handler (lines 90 to 123).\<close>

definition enhanced_result ::
  "string \<Rightarrow> jsval \<Rightarrow> jsval \<Rightarrow> jsval \<Rightarrow> jsval \<Rightarrow> jsval \<Rightarrow> jsval \<Rightarrow> response" where
  "enhanced_result timestamp interpretation milestones assignments artifacts notionUrl githubUrl =
     Response_json (JObj
       [(''title'', js_get_opt interpretation ''title''),
        (''objectives'', js_get_opt interpretation ''objectives''),
        (''scope_assumptions'', js_get_opt interpretation ''scope_assumptions''),
        (''milestones'', js_or (js_get_opt milestones ''milestones'') milestones),
        (''assignments'', js_or (js_get_opt assignments ''assignments'') assignments),
        (''notion_url'', notionUrl),
        (''github_url'', githubUrl),
        (''paper_content'', js_get_opt artifacts ''paper_draft''),
        (''readme_content'', js_get_opt artifacts ''readme''),
        (''api_documentation'', js_get_opt artifacts ''api_documentation''),
        (''deployment_guide'', js_get_opt artifacts ''deployment_guide''),
        (''testing_strategy'', js_get_opt artifacts ''testing_strategy''),
        (''code_structure'', js_get_opt artifacts ''code_structure''),
        (''agent_insights'', agent_insights_value),
        (''generation_type'', JStr ''enhanced''),
        (''generation_timestamp'', JStr timestamp),
        (''agent_version'', JStr ''1.0.0'')]) 200"

text \<open>
  Lines 29 to 123 of the enhanced handler: the four stages, the reads of their results
  that the logging makes (each throws on \<open>null\<close>), the two publish steps, the response.
\<close>

definition POST_steps :: "env \<Rightarrow> jsval \<Rightarrow> jsval \<Rightarrow> jsval \<Rightarrow> (ext_call list, response) eff" where
  "POST_steps w project_idea special_instructions contributors =
     bnd (await_call InterpretProject (interpretProject w project_idea special_instructions))
       (\<lambda>interpretation.
     bnd (lift (js_get interpretation ''title'')) (\<lambda>title.
     bnd (await_call GenerateTasksAndMilestones (generateTasksAndMilestones w interpretation))
       (\<lambda>milestones.
     bnd (lift (js_get milestones ''milestones'')) (\<lambda>milestones_list.
     bnd (await_call AssignTasksAndTimeline
            (assignTasksAndTimeline w milestones contributors special_instructions))
       (\<lambda>assignments.
     bnd (lift (js_get assignments ''assignments'')) (\<lambda>assignments_list.
     bnd (await_call GenerateArtifacts
            (generateArtifacts w interpretation milestones assignments project_idea))
       (\<lambda>artifacts.
     bnd (publish_notion w interpretation milestones assignments) (\<lambda>notionUrl.
     bnd (publish_github w interpretation artifacts milestones) (\<lambda>githubUrl.
     ret (enhanced_result (now w) interpretation milestones assignments artifacts
            notionUrl githubUrl))))))))))"

text \<open>The body of the \<open>try\<close> of the enhanced handler, after the body has been read.\<close>

definition POST_try :: "env \<Rightarrow> jsval \<Rightarrow> (ext_call list, response) eff" where
  "POST_try w b =
     bnd (lift (check_request b)) (\<lambda>checked.
       case checked of
         Inl early \<Rightarrow> ret early
       | Inr (project_idea, special_instructions, contributors) \<Rightarrow>
           POST_steps w project_idea special_instructions contributors)"

text \<open>\<open>error.message || "Failed to generate project"\<close>.\<close>

definition failure_message :: "js_error \<Rightarrow> string" where
  "failure_message e = (if message e \<noteq> [] then message e else ''Failed to generate project'')"

text \<open>
  The enhanced handler (route.js). \<open>req\<close> is the outcome of \<open>request.json()\<close>, which
  rejects on a body that is not JSON. The result is the response and the external calls
  issued, in order.
\<close>

definition POST :: "env \<Rightarrow> js_error + jsval \<Rightarrow> response \<times> ext_call list" where
  "POST w req =
     (case bnd (lift req) (POST_try w) [] of
        (Inr r, cs) \<Rightarrow> (r, cs)
      | (Inl error, cs) \<Rightarrow>
          (Response_json (JObj
             [(''error'', JStr (failure_message error)),
              (''generation_type'', JStr ''enhanced''),
              (''failure_timestamp'', JStr (now w))]) 500, cs))"

text \<open>
  The earlier handler (the second file with the same \<open>POST\<close>): no optional chaining on
  \<open>milestones.milestones\<close> and \<open>assignments.assignments\<close>, a preview of the README in the
  log, and a smaller response (lines 89 to 99).
\<close>

definition plain_result ::
  "jsval \<Rightarrow> jsval \<Rightarrow> jsval \<Rightarrow> jsval \<Rightarrow> jsval \<Rightarrow> jsval \<Rightarrow> response" where
  "plain_result interpretation milestones assignments artifacts notionUrl githubUrl =
     Response_json (JObj
       [(''title'', js_get_opt interpretation ''title''),
        (''objectives'', js_get_opt interpretation ''objectives''),
        (''scope_assumptions'', js_get_opt interpretation ''scope_assumptions''),
        (''milestones'', js_get_opt milestones ''milestones''),
        (''assignments'', js_get_opt assignments ''assignments''),
        (''notion_url'', notionUrl),
        (''github_url'', githubUrl),
        (''paper_content'', js_get_opt artifacts ''paper_draft''),
        (''readme_content'', js_get_opt artifacts ''readme'')]) 200"

definition POST_plain_steps ::
  "env \<Rightarrow> jsval \<Rightarrow> jsval \<Rightarrow> jsval \<Rightarrow> (ext_call list, response) eff" where
  "POST_plain_steps w project_idea special_instructions contributors =
     bnd (await_call InterpretProject (interpretProject w project_idea special_instructions))
       (\<lambda>interpretation.
     bnd (lift (js_get interpretation ''title'')) (\<lambda>title.
     bnd (await_call GenerateTasksAndMilestones (generateTasksAndMilestones w interpretation))
       (\<lambda>milestones.
     bnd (lift (js_get milestones ''milestones'')) (\<lambda>milestones_list.
     bnd (lift (js_get milestones_list ''length'')) (\<lambda>n_milestones.
     bnd (await_call AssignTasksAndTimeline
            (assignTasksAndTimeline w milestones contributors special_instructions))
       (\<lambda>assignments.
     bnd (lift (js_get assignments ''assignments'')) (\<lambda>assignments_list.
     bnd (lift (js_get assignments_list ''length'')) (\<lambda>n_assignments.
     bnd (await_call GenerateArtifacts
            (generateArtifacts w interpretation milestones assignments project_idea))
       (\<lambda>artifacts.
     bnd (lift (js_get artifacts ''readme'')) (\<lambda>readme.
     bnd (lift (js_call_substring_opt readme 200)) (\<lambda>preview.
     bnd (publish_notion w interpretation milestones assignments) (\<lambda>notionUrl.
     bnd (publish_github w interpretation artifacts milestones) (\<lambda>githubUrl.
     ret (plain_result interpretation milestones assignments artifacts
            notionUrl githubUrl))))))))))))))"

definition POST_plain_try :: "env \<Rightarrow> jsval \<Rightarrow> (ext_call list, response) eff" where
  "POST_plain_try w b =
     bnd (lift (check_request b)) (\<lambda>checked.
       case checked of
         Inl early \<Rightarrow> ret early
       | Inr (project_idea, special_instructions, contributors) \<Rightarrow>
           POST_plain_steps w project_idea special_instructions contributors)"

definition POST_plain :: "env \<Rightarrow> js_error + jsval \<Rightarrow> response \<times> ext_call list" where
  "POST_plain w req =
     (case bnd (lift req) (POST_plain_try w) [] of
        (Inr r, cs) \<Rightarrow> (r, cs)
      | (Inl error, cs) \<Rightarrow>
          (Response_json (JObj [(''error'', JStr (failure_message error))]) 500, cs))"



fun is_JStr :: "jsval \<Rightarrow> bool" where
  "is_JStr (JStr s) = True"
| "is_JStr v = False"



definition error_field :: "response \<Rightarrow> jsval" where
  "error_field r = js_get_opt (body r) ''error''"


text \<open>
  Names used in the statements about the handlers: the six external calls of a complete
  run, the URL a publish step leaves behind, the conditions under which the stages of a
  run resolve and the reads in between succeed, a world in which a publish call throws,
  and two responses that agree in status and in every field but one.
\<close>

definition all_calls :: "ext_call list" where
  "all_calls = [InterpretProject, GenerateTasksAndMilestones, AssignTasksAndTimeline,
                    GenerateArtifacts, CreateNotionPage, CreateGitHubRepo]"

definition url_of :: "js_error + jsval \<Rightarrow> jsval" where
  "url_of r = (case r of Inl e \<Rightarrow> JNull | Inr u \<Rightarrow> u)"

definition stages_ok :: "env \<Rightarrow> jsval \<Rightarrow> jsval \<Rightarrow> jsval \<Rightarrow> jsval \<Rightarrow> jsval \<Rightarrow> jsval \<Rightarrow> jsval \<Rightarrow> bool" where
  "stages_ok w idea special contribs i m a art \<longleftrightarrow>
       interpretProject w idea special = Inr i
     \<and> \<not> nullish i
     \<and> generateTasksAndMilestones w i = Inr m
     \<and> \<not> nullish m
     \<and> assignTasksAndTimeline w m contribs special = Inr a
     \<and> \<not> nullish a
     \<and> generateArtifacts w i m a idea = Inr art"

definition plain_reads_ok :: "jsval \<Rightarrow> jsval \<Rightarrow> jsval \<Rightarrow> bool" where
  "plain_reads_ok m a art \<longleftrightarrow>
       \<not> nullish (js_get_opt m ''milestones'')
     \<and> \<not> nullish (js_get_opt a ''assignments'')
     \<and> \<not> nullish art
     \<and> (nullish (js_get_opt art ''readme'') \<or> is_JStr (js_get_opt art ''readme''))"

definition fields_of :: "jsval \<Rightarrow> jsval \<times> jsval \<times> jsval" where
  "fields_of b = (js_get_opt b ''project_idea'', js_get_opt b ''special_instructions'',
     js_get_opt b ''contributors'')"

definition notion_throws :: "env \<Rightarrow> (jsval \<Rightarrow> jsval \<Rightarrow> jsval \<Rightarrow> js_error) \<Rightarrow> env" where
  "notion_throws w err = w\<lparr>createNotionPage := (\<lambda>i m a. Inl (err i m a))\<rparr>"

definition github_throws :: "env \<Rightarrow> (jsval \<Rightarrow> jsval \<Rightarrow> jsval \<Rightarrow> js_error) \<Rightarrow> env" where
  "github_throws w err = w\<lparr>createGitHubRepo := (\<lambda>i art m. Inl (err i art m))\<rparr>"

definition same_except :: "string \<Rightarrow> response \<Rightarrow> response \<Rightarrow> bool" where
  "same_except k r r' =
     (status r = status r' \<and> (\<forall>k'. k' \<noteq> k \<longrightarrow> js_get_opt (body r) k' = js_get_opt (body r') k'))"

text \<open>A sample world in which every call resolves, and two sample request bodies.\<close>

definition sample_env :: env where
  "sample_env = \<lparr>
     interpretProject = (\<lambda>idea special. Inr (JObj [(''title'', JStr ''Todo'')])),
     generateTasksAndMilestones = (\<lambda>i. Inr (JObj [(''milestones'', JArr [JStr ''M1''])])),
     assignTasksAndTimeline = (\<lambda>m c s. Inr (JObj [(''assignments'', JArr [JStr ''A1''])])),
     generateArtifacts = (\<lambda>i m a p. Inr (JObj [(''readme'', JStr ''Todo app'')])),
     createNotionPage = (\<lambda>i m a. Inr (JStr ''notion.so/page'')),
     createGitHubRepo = (\<lambda>i art m. Inr (JStr ''github.com/repo'')),
     now = ''2024-01-01T00:00:00.000Z'' \<rparr>"

definition sample_body :: jsval where
  "sample_body = JObj
     [(''project_idea'', JStr ''Build a todo app''),
      (''contributors'', JArr [JObj [(''name'', JStr ''A''), (''expertise'', JArr [])]])]"


section \<open>The web search agent (agents/web-search-agent.js)\<close>

text \<open>Decimal digits of a number, as \<open>${response.status}\<close> prints them.\<close>

fun decimal :: "nat \<Rightarrow> string" where
  "decimal n =
     (if n < 10 then [char_of (48 + n)] else decimal (n div 10) @ [char_of (48 + n mod 10)])"

text \<open>
  What the agents ask of the outside. A Serper request is the \<open>searchParams\<close> object;
  a completion request is named after the method that builds its prompts and holds the
  data the prompts are built from.
\<close>

record serper_params =
  q :: string
  num :: jsval
  hl :: jsval
  gl :: jsval

text \<open>
  The checklist of the validation agent, and the reply of the completion client on one
  criterion as far as the agent reads it: \<open>null\<close>, or a value whose \<open>score\<close> is a
  number or is missing. The prompts ask for a number from 0 to 100; a score that is not
  a number is outside the model, and numbers are integers.
\<close>

datatype criterion =
    technical_feasibility
  | market_viability
  | resource_adequacy
  | timeline_realism
  | risk_assessment
  | completeness_check
  | quality_standards
  | best_practices_compliance

datatype criterion_result = NullResult | Result (score: "int option") (detail: jsval)

datatype llm_request =
    AnalyzeSearchResults string "jsval list"
  | SynthesizeMultipleSearches "string list" "jsval list"
  | ValidateCriterion criterion jsval "jsval option"
  | GenerateImprovementSuggestions jsval "(criterion \<times> criterion_result) list"
  | GenerateValidationReport "(criterion \<times> criterion_result) list" int bool jsval
  | PlanResearchStrategy string
  | PerformTechnicalAnalysis string
  | PerformMarketAnalysis string jsval
  | PerformRiskAnalysis string
  | SynthesizeTopicFindings string jsval
  | SynthesizeResearch "(string \<times> jsval) list"

datatype request = Serper serper_params | Completion llm_request

definition resolved :: "js_error + 'a \<Rightarrow> bool" where
  "resolved r = (case r of Inl e \<Rightarrow> False | Inr x \<Rightarrow> True)"

text \<open>The \<open>Response\<close> of \<open>fetch\<close>: \<open>ok\<close>, \<open>status\<close>, and what \<open>json()\<close> settles to.\<close>

record http_response =
  ok :: bool
  http_status :: nat
  json :: "js_error + jsval"

text \<open>
  The world of a process. External calls are numbered in the order in which they are
  issued, and the world gives the outcome of the \<open>n\<close>-th call on its request, so that the
  same request can be answered differently at different times. \<open>fetch_serper\<close> is the
  \<open>fetch\<close> of the Serper endpoint (\<open>Inl\<close> a network failure), \<open>callLLM\<close> the completion
  client of \<open>utils/llm.js\<close> and \<open>callLLM_scored\<close> the same client where the caller
  reads a score from the reply, \<open>JSON_stringify\<close> the built-in serialiser, \<open>String_of\<close>
  the conversion to a string that a template literal makes, \<open>clock\<close> the time at the
  \<open>n\<close>-th call.
\<close>

record world =
  SERPER_API_KEY :: "string option"
  fetch_serper :: "nat \<Rightarrow> serper_params \<Rightarrow> js_error + http_response"
  callLLM :: "nat \<Rightarrow> llm_request \<Rightarrow> js_error + jsval"
  callLLM_scored :: "nat \<Rightarrow> llm_request \<Rightarrow> js_error + criterion_result"
  JSON_stringify :: "jsval \<Rightarrow> string"
  String_of :: "jsval \<Rightarrow> string"
  clock :: "nat \<Rightarrow> string"

text \<open>
  The state of an agent instance: the \<open>Map\<close> \<open>this.cache\<close>, and the external calls
  issued so far, each with whether it resolved.
\<close>

record agent =
  cache :: "string \<rightharpoonup> jsval"
  issued :: "(request \<times> bool) list"

definition new_agent :: agent where
  "new_agent = \<lparr>cache = Map.empty, issued = []\<rparr>"

definition await_fetch :: "world \<Rightarrow> serper_params \<Rightarrow> (agent, http_response) eff" where
  "await_fetch w p =
     (\<lambda>s. (fetch_serper w (length (issued s)) p,
           s\<lparr>issued := issued s @ [(Serper p, resolved (fetch_serper w (length (issued s)) p))]\<rparr>))"

definition await_llm :: "world \<Rightarrow> llm_request \<Rightarrow> (agent, jsval) eff" where
  "await_llm w r =
     (\<lambda>s. (callLLM w (length (issued s)) r,
           s\<lparr>issued := issued s @ [(Completion r, resolved (callLLM w (length (issued s)) r))]\<rparr>))"


definition cache_set :: "string \<Rightarrow> jsval \<Rightarrow> (agent, unit) eff" where
  "cache_set k v = (\<lambda>s. (Inr (), s\<lparr>cache := (cache s)(k \<mapsto> v)\<rparr>))"

text \<open>\<open>!apiKey\<close>: the variable is not set, or set to the empty string.\<close>

definition no_key :: "string option \<Rightarrow> bool" where
  "no_key k = (case k of None \<Rightarrow> True | Some v \<Rightarrow> v = [])"

definition searchWithSerper :: "world \<Rightarrow> string \<Rightarrow> jsval \<Rightarrow> (agent, jsval) eff" where
  "searchWithSerper w query options =
     (if no_key (SERPER_API_KEY w) then
        ret (JObj
          [(''organic'', JArr []),
           (''searchInformation'', JObj
              [(''totalResults'', JNum 0),
               (''formattedTotalResults'', JStr ''0 results (API key not configured)'')])])
      else
        bnd (lift (js_get options ''numResults'')) (\<lambda>numResults.
        bnd (lift (js_get options ''language'')) (\<lambda>language.
        bnd (lift (js_get options ''country'')) (\<lambda>country.
        bnd (await_fetch w
               \<lparr>q = query, num = js_or numResults (JNum 10),
                hl = js_or language (JStr ''en''), gl = js_or country (JStr ''us'')\<rparr>)
          (\<lambda>response.
        if \<not> ok response then
          throw (Error (''Serper API error: '' @ decimal (http_status response)))
        else lift (json response))))))"

text \<open>The object returned when there is nothing to analyse (lines 76 to 89).\<close>

definition unavailable :: "string \<Rightarrow> jsval" where
  "unavailable query = JObj
     [(''query'', JStr query),
      (''results'', JArr []),
      (''analysis'', JObj
         [(''key_insights'', JArr [JStr ''Web search unavailable - API key not configured'']),
          (''trends'', JArr [JStr ''Unable to analyze current trends without web access'']),
          (''recommendations'',
             JArr [JStr ''Configure SERPER_API_KEY for enhanced research capabilities'']),
          (''technical_details'', JArr [JStr ''Web search functionality disabled'']),
          (''market_data'', JArr [JStr ''Market analysis unavailable without web search'']),
          (''competitors'', JArr [JStr ''Competitor analysis unavailable without web search'']),
          (''technologies'', JArr [JStr ''Technology research limited without web access'']),
          (''summary'', JStr (''Web search functionality is disabled. Configure ''
             @ ''SERPER_API_KEY to enable real-time research capabilities.''))])]"

text \<open>
  \<open>organic.slice(0, 5).map(result => ({title, snippet, url, date}))\<close>: the reads throw
  on a hit that is \<open>null\<close>, and \<open>slice\<close>/\<open>map\<close> throw on what is not an array.
\<close>

definition relevant_hit :: "jsval \<Rightarrow> js_error + jsval" where
  "relevant_hit result =
     (case js_get result ''title'' of Inl e \<Rightarrow> Inl e | Inr title \<Rightarrow>
      Inr (JObj
        [(''title'', title),
         (''snippet'', js_get_opt result ''snippet''),
         (''url'', js_get_opt result ''link''),
         (''date'', js_get_opt result ''date'')]))"

fun relevant_hits :: "jsval list \<Rightarrow> js_error + jsval list" where
  "relevant_hits [] = Inr []"
| "relevant_hits (x # xs) =
     (case relevant_hit x of Inl e \<Rightarrow> Inl e | Inr y \<Rightarrow>
      case relevant_hits xs of Inl e \<Rightarrow> Inl e | Inr ys \<Rightarrow> Inr (y # ys))"

fun relevantResults :: "jsval \<Rightarrow> js_error + jsval list" where
  "relevantResults (JArr xs) = relevant_hits (take 5 xs)"
| "relevantResults v = Inl (TypeError ''searchResults.organic.slice(...).map is not a function'')"

definition analyzeSearchResults :: "world \<Rightarrow> string \<Rightarrow> jsval \<Rightarrow> (agent, jsval) eff" where
  "analyzeSearchResults w query searchResults =
     bnd (lift (js_get searchResults ''organic'')) (\<lambda>organic.
     if \<not> truthy organic \<or> js_get_opt organic ''length'' = JNum 0 then ret (unavailable query)
     else
       bnd (lift (relevantResults organic)) (\<lambda>relevant.
       bnd (await_llm w (AnalyzeSearchResults query relevant)) (\<lambda>analysis.
       (\<lambda>s. ret (JObj
          [(''query'', JStr query),
           (''results'', JArr relevant),
           (''analysis'', analysis),
           (''timestamp'', JStr (clock w (length (issued s))))]) s))))"

text \<open>The record that \<open>search\<close> returns from its \<open>catch\<close> (line 34).\<close>

definition failed_search :: "string \<Rightarrow> js_error \<Rightarrow> jsval" where
  "failed_search query error = JObj
     [(''query'', JStr query),
      (''results'', JArr []),
      (''analysis'', JNull),
      (''error'', JStr (message error))]"

definition cacheKey :: "world \<Rightarrow> string \<Rightarrow> jsval \<Rightarrow> string" where
  "cacheKey w query options = query @ ''-'' @ JSON_stringify w options"

text \<open>
  The two calls inside the \<open>try\<close> of \<open>search\<close>: the provider, then the analysis.
\<close>

definition search_attempt :: "world \<Rightarrow> string \<Rightarrow> jsval \<Rightarrow> (agent, jsval) eff" where
  "search_attempt w query options =
     bnd (searchWithSerper w query options) (analyzeSearchResults w query)"

text \<open>
  \<open>search\<close> after a cache miss: the \<open>try\<close>/\<open>catch\<close> of lines 22 to 35. The result is
  stored only when nothing threw.
\<close>

definition search_miss :: "world \<Rightarrow> string \<Rightarrow> jsval \<Rightarrow> (agent, jsval) eff" where
  "search_miss w query options =
     try_catch
       (bnd (search_attempt w query options) (\<lambda>analyzedResults.
        bnd (cache_set (cacheKey w query options) analyzedResults) (\<lambda>u.
        ret analyzedResults)))
       (\<lambda>error. ret (failed_search query error))"

definition search :: "world \<Rightarrow> string \<Rightarrow> jsval \<Rightarrow> (agent, jsval) eff" where
  "search w query options =
     (\<lambda>s. case cache s (cacheKey w query options) of
             Some cached \<Rightarrow> (Inr cached, s)
           | None \<Rightarrow> search_miss w query options s)"

text \<open>
  \<open>Promise.all(queries.map(query => this.search(query)))\<close>. Each \<open>search\<close> runs up to
  its first \<open>await\<close> when it is called, so every cache lookup of the batch is made on
  the cache as it is before the batch. The rest of the searches run concurrently; the
  model runs them one after the other in the order of the queries, which is one of their
  possible schedules. A rejection of one of them would reject the \<open>Promise.all\<close>.
\<close>

fun settle_all :: "world \<Rightarrow> (string \<times> jsval option) list \<Rightarrow> (agent, jsval list) eff" where
  "settle_all w [] s = ret [] s"
| "settle_all w ((query, Some cached) # rest) s =
     bnd (settle_all w rest) (\<lambda>rs. ret (cached # rs)) s"
| "settle_all w ((query, None) # rest) s =
     bnd (search_miss w query (JObj [])) (\<lambda>r.
     bnd (settle_all w rest) (\<lambda>rs. ret (r # rs))) s"

definition search_all :: "world \<Rightarrow> string list \<Rightarrow> (agent, jsval list) eff" where
  "search_all w queries =
     (\<lambda>s. settle_all w (map (\<lambda>query. (query, cache s (cacheKey w query (JObj [])))) queries) s)"

definition synthesizeMultipleSearches :: "world \<Rightarrow> string list \<Rightarrow> jsval list \<Rightarrow> (agent, jsval) eff" where
  "synthesizeMultipleSearches w queries rs = await_llm w (SynthesizeMultipleSearches queries rs)"

definition searchMultipleQueries :: "world \<Rightarrow> string list \<Rightarrow> (agent, jsval) eff" where
  "searchMultipleQueries w queries =
     bnd (search_all w queries) (\<lambda>rs.
     bnd (synthesizeMultipleSearches w queries rs) (\<lambda>synthesis.
     ret (JObj [(''individualResults'', JArr rs), (''synthesis'', synthesis)])))"


definition clearCache :: "agent \<Rightarrow> agent" where
  "clearCache s = s\<lparr>cache := Map.empty\<rparr>"

text \<open>
  What a caller can do with an agent instance, and a history of such operations run one
  after the other; the outcomes are dropped, the state is kept.
\<close>

datatype agent_op = OpSearch string jsval | OpBatch "string list" | OpClear

fun run_op :: "world \<Rightarrow> agent_op \<Rightarrow> agent \<Rightarrow> agent" where
  "run_op w (OpSearch query options) s = snd (search w query options s)"
| "run_op w (OpBatch queries) s = snd (searchMultipleQueries w queries s)"
| "run_op w OpClear s = clearCache s"

definition run_ops :: "world \<Rightarrow> agent_op list \<Rightarrow> agent \<Rightarrow> agent" where
  "run_ops w ops s = fold (run_op w) ops s"

text \<open>
  The degraded answer of the specification: no results, an analysis that is not
  \<open>null\<close>, and a summary that tells how to configure the credential.
\<close>

definition degraded :: "jsval \<Rightarrow> bool" where
  "degraded r =
     (js_get_opt r ''results'' = JArr []
      \<and> \<not> nullish (js_get_opt r ''analysis'')
      \<and> (case js_get_opt (js_get_opt r ''analysis'') ''summary'' of
            JStr summary \<Rightarrow> str_includes summary ''Configure SERPER_API_KEY''
          | _ \<Rightarrow> False))"

text \<open>
  The outcome of the underlying search of each query of a batch, in the order of the
  queries: the cached answer for a hit, otherwise what the provider call and the analysis
  settle to, before the \<open>catch\<close> of \<open>search\<close>.
\<close>

fun underlying :: "world \<Rightarrow> (string \<times> jsval option) list \<Rightarrow> agent \<Rightarrow> (js_error + jsval) list" where
  "underlying w [] s = []"
| "underlying w ((query, Some cached) # rest) s = Inr cached # underlying w rest s"
| "underlying w ((query, None) # rest) s =
     fst (search_attempt w query (JObj []) s)
       # underlying w rest (snd (search_miss w query (JObj []) s))"

definition batch_lookups :: "world \<Rightarrow> string list \<Rightarrow> agent \<Rightarrow> (string \<times> jsval option) list" where
  "batch_lookups w queries s = map (\<lambda>query. (query, cache s (cacheKey w query (JObj [])))) queries"

text \<open>
  Names used in the statements about the web search agent: a cache that holds degraded
  answers only, an effect that leaves the cache alone, the entry of a batch for a query
  whose underlying search settled, and sample worlds: one without credentials, one whose
  first provider call fails, one whose provider fails on the query \<open>b\<close>.
\<close>

definition degraded_cache :: "agent \<Rightarrow> bool" where
  "degraded_cache s = (\<forall>k r. cache s k = Some r \<longrightarrow> degraded r)"


definition entry_of :: "string \<Rightarrow> js_error + jsval \<Rightarrow> jsval" where
  "entry_of query out = (case out of Inl e \<Rightarrow> failed_search query e | Inr r \<Rightarrow> r)"

definition offline_world :: world where
  "offline_world = \<lparr>
     SERPER_API_KEY = None,
     fetch_serper = (\<lambda>n p. Inl (Error ''fetch failed'')),
     callLLM = (\<lambda>n r. Inl (Error ''OPENAI_API_KEY not configured'')),
     callLLM_scored = (\<lambda>n r. Inr (Result (Some 80) JNull)),
     JSON_stringify = (\<lambda>v. ''{}''),
     String_of = (\<lambda>v. case v of JStr t \<Rightarrow> t | _ \<Rightarrow> ''undefined''),
     clock = (\<lambda>n. ''2024-01-01T00:00:00.000Z'') \<rparr>"

definition one_hit :: http_response where
  "one_hit = \<lparr>ok = True, http_status = 200,
     json = Inr (JObj [(''organic'', JArr [JObj [(''title'', JStr ''T''), (''link'', JStr ''u'')]])])\<rparr>"

definition analysed :: "llm_request \<Rightarrow> js_error + jsval \<Rightarrow> js_error + jsval" where
  "analysed r synthesis = (case r of
        AnalyzeSearchResults query hits \<Rightarrow> Inr (JObj [(''summary'', JStr ''ok'')])
      | _ \<Rightarrow> synthesis)"


definition batch_world :: "(js_error + jsval) \<Rightarrow> world" where
  "batch_world synthesis = \<lparr>
     SERPER_API_KEY = Some ''key'',
     fetch_serper = (\<lambda>n p. if q p = ''b'' then Inl (Error ''fetch failed'') else Inr one_hit),
     callLLM = (\<lambda>n r. analysed r synthesis),
     callLLM_scored = (\<lambda>n r. Inr (Result (Some 80) JNull)),
     JSON_stringify = (\<lambda>v. ''{}''),
     String_of = (\<lambda>v. case v of JStr t \<Rightarrow> t | _ \<Rightarrow> ''undefined''),
     clock = (\<lambda>n. ''2024-01-01T00:00:00.000Z'') \<rparr>"

section \<open>The validation agent (agents/validation-agent.js)\<close>











record validation =
  timestamp :: string
  results :: "(criterion \<times> criterion_result) list"
  overallScore :: int
  improvementNeeded :: bool
  suggestions :: jsval
  report :: jsval


section \<open>The research agent (agents/research-agent.js)\<close>


















section \<open>The knowledge base (agents/knowledge-base.js)\<close>













































section \<open>Orchestrator: execution log and confidence score (orchestrator.js)\<close>

text \<open>
  The log lines are strings of the program's own messages, which hold characters beyond
  code unit 255; a line is therefore kept as the list of its UTF-16 code units, and
  \<open>units\<close> gives the code units of a literal.
\<close>

definition units :: "string \<Rightarrow> nat list" where
  "units t = map of_char t"

record orchestrator =
  executionLog :: "nat list list"

text \<open>\<open>log(message)\<close>; \<open>stamp\<close> is the value of \<open>new Date().toISOString()\<close>.\<close>

definition log :: "nat list \<Rightarrow> nat list \<Rightarrow> orchestrator \<Rightarrow> orchestrator" where
  "log stamp msg orc =
     orc\<lparr>executionLog := executionLog orc @ [units ''['' @ stamp @ units ''] '' @ msg]\<rparr>"

definition researchDepth :: "orchestrator \<Rightarrow> int" where
  "researchDepth orc =
     int (length (filter (\<lambda>l. str_includes l (units ''research'')) (executionLog orc)))"

definition validationChecks :: "orchestrator \<Rightarrow> int" where
  "validationChecks orc =
     int (length (filter (\<lambda>l. str_includes l (units ''validation'')) (executionLog orc)))"

definition enhancementSteps :: "orchestrator \<Rightarrow> int" where
  "enhancementSteps orc =
     int (length (filter (\<lambda>l. str_includes l (units ''enhancement'')) (executionLog orc)))"

definition calculateConfidenceScore :: "orchestrator \<Rightarrow> int" where
  "calculateConfidenceScore orc =
     min 100 (researchDepth orc * 20 + validationChecks orc * 25 + enhancementSteps orc * 15)"

text \<open>
  The specification's wording of the three counts: the number of log lines that contain
  the substring, a line containing it when it splits as \<open>p @ t @ r\<close>.
\<close>

definition contains_substring :: "nat list \<Rightarrow> string \<Rightarrow> bool" where
  "contains_substring l t = (\<exists>p r. l = p @ units t @ r)"

definition lines_containing :: "string \<Rightarrow> nat list list \<Rightarrow> int" where
  "lines_containing t ls = int (card {i. i < length ls \<and> contains_substring (ls ! i) t})"

text \<open>
  Two sample logs with the same counts. The first is written by \<open>log\<close> with two of the
  orchestrator's own messages, each starting with a character outside the basic plane
  (two code units).
\<close>

definition sample_log :: "nat list list" where
  "sample_log = executionLog
     (log (units ''2024-01-01T00:00:01.000Z'')
        ([55357, 56580, 32] @ units ''Starting continuous improvement validation'')
     (log (units ''2024-01-01T00:00:00.000Z'')
        ([55357, 56620, 32] @ units ''Starting autonomous research phase'')
        \<lparr>executionLog = []\<rparr>))"

definition other_log :: "nat list list" where
  "other_log = [units ''validation one'', units ''more research now'', units ''Research done'']"

section \<open>Properties of the request handlers\<close>


lemma bnd_InrD:
  assumes "bnd m f s = (Inr r, s')"
  obtains x s1 where "m s = (Inr x, s1)" and "f x s1 = (Inr r, s')"
  using assms by (auto simp: bnd_def split: sum.splits prod.splits)

lemma bnd_Inr: "m s = (Inr x, s1) \<Longrightarrow> bnd m f s = f x s1"
  by (simp add: bnd_def)

lemma publish_notion_eq:
  "publish_notion w i m a cs =
     (Inr (case createNotionPage w i m a of Inl e \<Rightarrow> JNull | Inr u \<Rightarrow> u), cs @ [CreateNotionPage])"
  by (simp add: publish_notion_def try_catch_def await_call_def ret_def split: sum.splits)

lemma publish_github_eq:
  "publish_github w i art m cs =
     (Inr (case createGitHubRepo w i art m of Inl e \<Rightarrow> JNull | Inr u \<Rightarrow> u), cs @ [CreateGitHubRepo])"
  by (simp add: publish_github_def try_catch_def await_call_def ret_def split: sum.splits)

lemma lift_eq: "lift r s = (Inr x, s') \<longleftrightarrow> r = Inr x \<and> s' = s"
  by (auto simp: lift_def)

lemma await_call_eq: "await_call c r s = (Inr x, s') \<longleftrightarrow> r = Inr x \<and> s' = s @ [c]"
  by (auto simp: await_call_def)

lemma ret_eq: "ret x s = (Inr y, s') \<longleftrightarrow> y = x \<and> s' = s"
  by (auto simp: ret_def)

lemma js_get_Inr_iff: "js_get v k = Inr x \<longleftrightarrow> \<not> nullish v \<and> x = js_get_opt v k"
  by (cases v) (auto simp: js_get_opt_def)

lemma POST_steps_Inr:
  assumes "POST_steps w idea special contribs cs = (Inr r, cs')"
  shows "\<exists>i m a art. stages_ok w idea special contribs i m a art
     \<and> r = enhanced_result (now w) i m a art (url_of (createNotionPage w i m a))
           (url_of (createGitHubRepo w i art m))
     \<and> cs' = cs @ all_calls"
  using assms unfolding POST_steps_def
  apply (elim bnd_InrD)
  apply (simp add: lift_eq await_call_eq ret_eq publish_notion_eq publish_github_eq
      js_get_Inr_iff stages_ok_def all_calls_def url_of_def)
  done

lemma POST_steps_success:
  assumes "stages_ok w idea special contribs i m a art"
  shows "POST_steps w idea special contribs cs =
     (Inr (enhanced_result (now w) i m a art (url_of (createNotionPage w i m a))
           (url_of (createGitHubRepo w i art m))), cs @ all_calls)"
proof -
  have g: "js_get v k = Inr (js_get_opt v k)" if "\<not> nullish v" for v k
    using that by (simp add: js_get_Inr_iff)
  show ?thesis
    using assms unfolding POST_steps_def stages_ok_def
    by (simp add: bnd_def await_call_def lift_def ret_def g publish_notion_eq publish_github_eq
        all_calls_def url_of_def)
qed

lemma substring_Inr_iff:
  "(\<exists>x. js_call_substring_opt v n = Inr x) \<longleftrightarrow> nullish v \<or> is_JStr v"
  by (cases v) auto

lemma POST_plain_steps_Inr:
  assumes "POST_plain_steps w idea special contribs cs = (Inr r, cs')"
  shows "\<exists>i m a art. stages_ok w idea special contribs i m a art \<and> plain_reads_ok m a art
     \<and> r = plain_result i m a art (url_of (createNotionPage w i m a))
           (url_of (createGitHubRepo w i art m))
     \<and> cs' = cs @ all_calls"
  using assms unfolding POST_plain_steps_def
  apply (elim bnd_InrD)
  apply (simp add: lift_eq await_call_eq ret_eq publish_notion_eq publish_github_eq
      js_get_Inr_iff stages_ok_def all_calls_def url_of_def plain_reads_ok_def)
  using substring_Inr_iff apply blast
  done

lemma POST_plain_steps_success:
  assumes "stages_ok w idea special contribs i m a art" and "plain_reads_ok m a art"
  shows "POST_plain_steps w idea special contribs cs =
     (Inr (plain_result i m a art (url_of (createNotionPage w i m a))
           (url_of (createGitHubRepo w i art m))), cs @ all_calls)"
proof -
  have g: "js_get v k = Inr (js_get_opt v k)" if "\<not> nullish v" for v k
    using that by (simp add: js_get_Inr_iff)
  obtain p where p: "js_call_substring_opt (js_get_opt art ''readme'') 200 = Inr p"
    using assms(2) substring_Inr_iff unfolding plain_reads_ok_def by blast
  show ?thesis
    using assms p unfolding POST_plain_steps_def stages_ok_def plain_reads_ok_def
    by (simp add: bnd_def await_call_def lift_def ret_def g publish_notion_eq publish_github_eq
        all_calls_def url_of_def)
qed

lemma check_request_early:
  assumes "check_request b = Inr (Inl r)"
  shows "status r = 400 \<and> \<not> nullish (error_field r)"
  using assms
  by (auto simp: check_request_def Response_json_def error_field_def js_get_opt_def
      split: sum.splits if_splits)

lemma check_request_fields:
  assumes "check_request b = Inr (Inr (idea, special, contribs))"
  shows "idea = js_get_opt b ''project_idea'' \<and> special = js_get_opt b ''special_instructions''
     \<and> contribs = js_get_opt b ''contributors''"
  using assms
  by (auto simp: check_request_def js_get_opt_def split: sum.splits if_splits)




lemma check_request_Inr_fields:
  "check_request b = Inr (Inr f) \<Longrightarrow> f = fields_of b"
  using check_request_fields [of b "fst f" "fst (snd f)" "snd (snd f)"]
  by (cases f) (simp add: fields_of_def)

lemma POST_try_Inr:
  assumes "POST_try w b cs = (Inr r, cs')"
  shows "(check_request b = Inr (Inl r) \<and> cs' = cs)
     \<or> (check_request b = Inr (Inr (fields_of b))
        \<and> POST_steps w (js_get_opt b ''project_idea'') (js_get_opt b ''special_instructions'')
             (js_get_opt b ''contributors'') cs = (Inr r, cs'))"
proof -
  from assms obtain checked where c: "check_request b = Inr checked"
    and rest: "(case checked of Inl early \<Rightarrow> ret early
       | Inr (project_idea, special_instructions, contributors) \<Rightarrow>
           POST_steps w project_idea special_instructions contributors) cs = (Inr r, cs')"
    unfolding POST_try_def by (elim bnd_InrD) (simp add: lift_eq)
  show ?thesis
  proof (cases checked)
    case (Inl early)
    with rest c show ?thesis by (simp add: ret_eq)
  next
    case (Inr f)
    with c have f: "f = fields_of b" by (simp add: check_request_Inr_fields)
    from rest c show ?thesis
      unfolding Inr f by (simp add: fields_of_def)
  qed
qed

lemma POST_plain_try_Inr:
  assumes "POST_plain_try w b cs = (Inr r, cs')"
  shows "(check_request b = Inr (Inl r) \<and> cs' = cs)
     \<or> (check_request b = Inr (Inr (fields_of b))
        \<and> POST_plain_steps w (js_get_opt b ''project_idea'') (js_get_opt b ''special_instructions'')
             (js_get_opt b ''contributors'') cs = (Inr r, cs'))"
proof -
  from assms obtain checked where c: "check_request b = Inr checked"
    and rest: "(case checked of Inl early \<Rightarrow> ret early
       | Inr (project_idea, special_instructions, contributors) \<Rightarrow>
           POST_plain_steps w project_idea special_instructions contributors) cs = (Inr r, cs')"
    unfolding POST_plain_try_def by (elim bnd_InrD) (simp add: lift_eq)
  show ?thesis
  proof (cases checked)
    case (Inl early)
    with rest c show ?thesis by (simp add: ret_eq)
  next
    case (Inr f)
    with c have f: "f = fields_of b" by (simp add: check_request_Inr_fields)
    from rest c show ?thesis
      unfolding Inr f by (simp add: fields_of_def)
  qed
qed

lemma failure_message_nonempty: "failure_message e \<noteq> []"
  by (simp add: failure_message_def)

lemma POST_Inr_eq: "POST w (Inr b) =
   (case POST_try w b [] of
        (Inr r, cs) \<Rightarrow> (r, cs)
      | (Inl error, cs) \<Rightarrow>
          (Response_json (JObj
             [(''error'', JStr (failure_message error)),
              (''generation_type'', JStr ''enhanced''),
              (''failure_timestamp'', JStr (now w))]) 500, cs))"
  by (simp add: POST_def bnd_def lift_def)

lemma POST_plain_Inr_eq: "POST_plain w (Inr b) =
   (case POST_plain_try w b [] of
        (Inr r, cs) \<Rightarrow> (r, cs)
      | (Inl error, cs) \<Rightarrow>
          (Response_json (JObj [(''error'', JStr (failure_message error))]) 500, cs))"
  by (simp add: POST_plain_def bnd_def lift_def)

lemma POST_outcome:
  assumes "POST w req = (r, cs)"
  shows "(status r = 500 \<and> \<not> nullish (error_field r))
     \<or> (\<exists>b. req = Inr b \<and> check_request b = Inr (Inl r) \<and> cs = [])
     \<or> (\<exists>b i m a art. req = Inr b \<and> check_request b = Inr (Inr (fields_of b))
          \<and> stages_ok w (js_get_opt b ''project_idea'') (js_get_opt b ''special_instructions'')
               (js_get_opt b ''contributors'') i m a art
          \<and> r = enhanced_result (now w) i m a art (url_of (createNotionPage w i m a))
                 (url_of (createGitHubRepo w i art m))
          \<and> cs = all_calls)"
proof (cases req)
  case (Inl e)
  with assms show ?thesis
    by (auto simp: POST_def bnd_def lift_def Response_json_def error_field_def js_get_opt_def)
next
  case (Inr b)
  obtain res cs1 where t: "POST_try w b [] = (res, cs1)" by (cases "POST_try w b []")
  show ?thesis
  proof (cases res)
    case (Inl e)
    with assms t Inr show ?thesis
      by (auto simp: POST_Inr_eq Response_json_def error_field_def js_get_opt_def)
  next
    case r1: (Inr r1)
    with assms t Inr have eq: "r1 = r" "cs1 = cs" by (auto simp: POST_Inr_eq)
    from POST_try_Inr [OF t [unfolded r1 eq]] show ?thesis
    proof
      assume "check_request b = Inr (Inl r) \<and> cs = []"
      with Inr show ?thesis by blast
    next
      assume a: "check_request b = Inr (Inr (fields_of b)) \<and>
        POST_steps w (js_get_opt b ''project_idea'') (js_get_opt b ''special_instructions'')
          (js_get_opt b ''contributors'') [] = (Inr r, cs)"
      with POST_steps_Inr [of w _ _ _ "[]" r cs] Inr show ?thesis by fastforce
    qed
  qed
qed

lemma POST_plain_outcome:
  assumes "POST_plain w req = (r, cs)"
  shows "(status r = 500 \<and> \<not> nullish (error_field r))
     \<or> (\<exists>b. req = Inr b \<and> check_request b = Inr (Inl r) \<and> cs = [])
     \<or> (\<exists>b i m a art. req = Inr b \<and> check_request b = Inr (Inr (fields_of b))
          \<and> stages_ok w (js_get_opt b ''project_idea'') (js_get_opt b ''special_instructions'')
               (js_get_opt b ''contributors'') i m a art
          \<and> plain_reads_ok m a art
          \<and> r = plain_result i m a art (url_of (createNotionPage w i m a))
                 (url_of (createGitHubRepo w i art m))
          \<and> cs = all_calls)"
proof (cases req)
  case (Inl e)
  with assms show ?thesis
    by (auto simp: POST_plain_def bnd_def lift_def Response_json_def error_field_def js_get_opt_def)
next
  case (Inr b)
  obtain res cs1 where t: "POST_plain_try w b [] = (res, cs1)" by (cases "POST_plain_try w b []")
  show ?thesis
  proof (cases res)
    case (Inl e)
    with assms t Inr show ?thesis
      by (auto simp: POST_plain_Inr_eq Response_json_def error_field_def js_get_opt_def)
  next
    case r1: (Inr r1)
    with assms t Inr have eq: "r1 = r" "cs1 = cs" by (auto simp: POST_plain_Inr_eq)
    from POST_plain_try_Inr [OF t [unfolded r1 eq]] show ?thesis
    proof
      assume "check_request b = Inr (Inl r) \<and> cs = []"
      with Inr show ?thesis by blast
    next
      assume a: "check_request b = Inr (Inr (fields_of b)) \<and>
        POST_plain_steps w (js_get_opt b ''project_idea'') (js_get_opt b ''special_instructions'')
          (js_get_opt b ''contributors'') [] = (Inr r, cs)"
      with POST_plain_steps_Inr [of w _ _ _ "[]" r cs] Inr show ?thesis by fastforce
    qed
  qed
qed


lemma POST_success:
  assumes "check_request b = Inr (Inr (fields_of b))"
    and "stages_ok w (js_get_opt b ''project_idea'') (js_get_opt b ''special_instructions'')
               (js_get_opt b ''contributors'') i m a art"
  shows "POST w (Inr b) =
    (enhanced_result (now w) i m a art (url_of (createNotionPage w i m a))
       (url_of (createGitHubRepo w i art m)), all_calls)"
  using assms(1) POST_steps_success [OF assms(2), of "[]"]
  by (simp add: POST_Inr_eq POST_try_def bnd_def lift_def fields_of_def)

lemma POST_plain_success:
  assumes "check_request b = Inr (Inr (fields_of b))"
    and "stages_ok w (js_get_opt b ''project_idea'') (js_get_opt b ''special_instructions'')
               (js_get_opt b ''contributors'') i m a art"
    and "plain_reads_ok m a art"
  shows "POST_plain w (Inr b) =
    (plain_result i m a art (url_of (createNotionPage w i m a))
       (url_of (createGitHubRepo w i art m)), all_calls)"
  using assms(1) POST_plain_steps_success [OF assms(2,3), of "[]"]
  by (simp add: POST_plain_Inr_eq POST_plain_try_def bnd_def lift_def fields_of_def)

lemma enhanced_result_status [simp]: "status (enhanced_result t i m a art nu gu) = 200"
  by (simp add: enhanced_result_def Response_json_def)

lemma plain_result_status [simp]: "status (plain_result i m a art nu gu) = 200"
  by (simp add: plain_result_def Response_json_def)

lemma enhanced_result_insights:
  "js_get_opt (body (enhanced_result t i m a art nu gu)) ''agent_insights'' = agent_insights_value"
  by (simp add: enhanced_result_def Response_json_def js_get_opt_def)

lemma POST_200:
  assumes "status (fst (POST w req)) = 200"
  shows "\<exists>b i m a art. req = Inr b \<and> check_request b = Inr (Inr (fields_of b))
          \<and> stages_ok w (js_get_opt b ''project_idea'') (js_get_opt b ''special_instructions'')
               (js_get_opt b ''contributors'') i m a art
          \<and> POST w req = (enhanced_result (now w) i m a art (url_of (createNotionPage w i m a))
                 (url_of (createGitHubRepo w i art m)), all_calls)"
proof -
  obtain r cs where rc: "POST w req = (r, cs)" by (cases "POST w req")
  with assms have st: "status r = 200" by simp
  from POST_outcome [OF rc] st check_request_early [of _ r] rc show ?thesis
    by fastforce
qed

lemma POST_plain_200:
  assumes "status (fst (POST_plain w req)) = 200"
  shows "\<exists>b i m a art. req = Inr b \<and> check_request b = Inr (Inr (fields_of b))
          \<and> stages_ok w (js_get_opt b ''project_idea'') (js_get_opt b ''special_instructions'')
               (js_get_opt b ''contributors'') i m a art
          \<and> plain_reads_ok m a art
          \<and> POST_plain w req = (plain_result i m a art (url_of (createNotionPage w i m a))
                 (url_of (createGitHubRepo w i art m)), all_calls)"
proof -
  obtain r cs where rc: "POST_plain w req = (r, cs)" by (cases "POST_plain w req")
  with assms have st: "status r = 200" by simp
  from POST_plain_outcome [OF rc] st check_request_early [of _ r] rc show ?thesis
    by fastforce
qed

text \<open>
  C10. Every 200 response of the enhanced handler carries the same \<open>agent_insights\<close>:
  confidence_score 85, web_search_performed false, technical_research_conducted true,
  market_analysis_performed false, enhancement_applied true. Two successful runs agree on
  it whatever the worlds and the requests.
\<close>

theorem agent_insights_constant:
  "(status (fst (POST w req)) = 200 \<longrightarrow>
      js_get_opt (body (fst (POST w req))) ''agent_insights'' = JObj
        [(''confidence_score'', JNum 85),
         (''web_search_performed'', JBool False),
         (''technical_research_conducted'', JBool True),
         (''market_analysis_performed'', JBool False),
         (''enhancement_applied'', JBool True)])
   \<and> (status (fst (POST w req)) = 200 \<and> status (fst (POST w' req')) = 200 \<longrightarrow>
      js_get_opt (body (fst (POST w req))) ''agent_insights'' =
      js_get_opt (body (fst (POST w' req'))) ''agent_insights'')"
proof -
  have one: "js_get_opt (body (fst (POST v q))) ''agent_insights'' = agent_insights_value"
    if "status (fst (POST v q)) = 200" for v q
    using POST_200 [OF that] by (auto simp: enhanced_result_insights)
  show ?thesis
    using one [of w req] one [of w' req'] by (simp add: agent_insights_value_def)
qed








lemma stages_ok_notion_throws:
  "stages_ok (notion_throws w err) idea special contribs i m a art
     = stages_ok w idea special contribs i m a art"
  by (simp add: stages_ok_def notion_throws_def)

lemma stages_ok_github_throws:
  "stages_ok (github_throws w err) idea special contribs i m a art
     = stages_ok w idea special contribs i m a art"
  by (simp add: stages_ok_def github_throws_def)

lemma enhanced_same_except_notion:
  "same_except ''notion_url'' (enhanced_result t i m a art nu gu) (enhanced_result t i m a art nu' gu)"
  by (simp add: same_except_def enhanced_result_def Response_json_def js_get_opt_def)

lemma enhanced_same_except_github:
  "same_except ''github_url'' (enhanced_result t i m a art nu gu) (enhanced_result t i m a art nu gu')"
  by (simp add: same_except_def enhanced_result_def Response_json_def js_get_opt_def)

lemma plain_same_except_notion:
  "same_except ''notion_url'' (plain_result i m a art nu gu) (plain_result i m a art nu' gu)"
  by (simp add: same_except_def plain_result_def Response_json_def js_get_opt_def)

lemma plain_same_except_github:
  "same_except ''github_url'' (plain_result i m a art nu gu) (plain_result i m a art nu gu')"
  by (simp add: same_except_def plain_result_def Response_json_def js_get_opt_def)

lemma enhanced_urls:
  "js_get_opt (body (enhanced_result t i m a art nu gu)) ''notion_url'' = nu"
  "js_get_opt (body (enhanced_result t i m a art nu gu)) ''github_url'' = gu"
  by (simp_all add: enhanced_result_def Response_json_def js_get_opt_def)

lemma plain_urls:
  "js_get_opt (body (plain_result i m a art nu gu)) ''notion_url'' = nu"
  "js_get_opt (body (plain_result i m a art nu gu)) ''github_url'' = gu"
  by (simp_all add: plain_result_def Response_json_def js_get_opt_def)

lemma POST_notion_throws:
  assumes "status (fst (POST w req)) = 200"
  shows "same_except ''notion_url'' (fst (POST (notion_throws w err) req)) (fst (POST w req))
     \<and> js_get_opt (body (fst (POST (notion_throws w err) req))) ''notion_url'' = JNull
     \<and> snd (POST (notion_throws w err) req) = all_calls"
proof -
  from POST_200 [OF assms] obtain b i m a art where req: "req = Inr b"
    and c: "check_request b = Inr (Inr (fields_of b))"
    and ok: "stages_ok w (js_get_opt b ''project_idea'') (js_get_opt b ''special_instructions'')
               (js_get_opt b ''contributors'') i m a art"
    and out: "POST w req = (enhanced_result (now w) i m a art (url_of (createNotionPage w i m a))
                 (url_of (createGitHubRepo w i art m)), all_calls)"
    by blast
  have ok': "stages_ok (notion_throws w err) (js_get_opt b ''project_idea'')
       (js_get_opt b ''special_instructions'') (js_get_opt b ''contributors'') i m a art"
    using ok by (simp add: stages_ok_notion_throws)
  have "POST (notion_throws w err) req =
     (enhanced_result (now w) i m a art JNull (url_of (createGitHubRepo w i art m)), all_calls)"
    using POST_success [OF c ok'] unfolding req by (simp add: notion_throws_def url_of_def)
  then show ?thesis
    unfolding out by (simp add: enhanced_same_except_notion enhanced_urls)
qed

lemma POST_github_throws:
  assumes "status (fst (POST w req)) = 200"
  shows "same_except ''github_url'' (fst (POST (github_throws w err) req)) (fst (POST w req))
     \<and> js_get_opt (body (fst (POST (github_throws w err) req))) ''github_url'' = JNull
     \<and> snd (POST (github_throws w err) req) = all_calls"
proof -
  from POST_200 [OF assms] obtain b i m a art where req: "req = Inr b"
    and c: "check_request b = Inr (Inr (fields_of b))"
    and ok: "stages_ok w (js_get_opt b ''project_idea'') (js_get_opt b ''special_instructions'')
               (js_get_opt b ''contributors'') i m a art"
    and out: "POST w req = (enhanced_result (now w) i m a art (url_of (createNotionPage w i m a))
                 (url_of (createGitHubRepo w i art m)), all_calls)"
    by blast
  have ok': "stages_ok (github_throws w err) (js_get_opt b ''project_idea'')
       (js_get_opt b ''special_instructions'') (js_get_opt b ''contributors'') i m a art"
    using ok by (simp add: stages_ok_github_throws)
  have "POST (github_throws w err) req =
     (enhanced_result (now w) i m a art (url_of (createNotionPage w i m a)) JNull, all_calls)"
    using POST_success [OF c ok'] unfolding req by (simp add: github_throws_def url_of_def)
  then show ?thesis
    unfolding out by (simp add: enhanced_same_except_github enhanced_urls)
qed

lemma POST_plain_notion_throws:
  assumes "status (fst (POST_plain w req)) = 200"
  shows "same_except ''notion_url'' (fst (POST_plain (notion_throws w err) req)) (fst (POST_plain w req))
     \<and> js_get_opt (body (fst (POST_plain (notion_throws w err) req))) ''notion_url'' = JNull
     \<and> snd (POST_plain (notion_throws w err) req) = all_calls"
proof -
  from POST_plain_200 [OF assms] obtain b i m a art where req: "req = Inr b"
    and c: "check_request b = Inr (Inr (fields_of b))"
    and ok: "stages_ok w (js_get_opt b ''project_idea'') (js_get_opt b ''special_instructions'')
               (js_get_opt b ''contributors'') i m a art"
    and rd: "plain_reads_ok m a art"
    and out: "POST_plain w req = (plain_result i m a art (url_of (createNotionPage w i m a))
                 (url_of (createGitHubRepo w i art m)), all_calls)"
    by blast
  have ok': "stages_ok (notion_throws w err) (js_get_opt b ''project_idea'')
       (js_get_opt b ''special_instructions'') (js_get_opt b ''contributors'') i m a art"
    using ok by (simp add: stages_ok_notion_throws)
  have "POST_plain (notion_throws w err) req =
     (plain_result i m a art JNull (url_of (createGitHubRepo w i art m)), all_calls)"
    using POST_plain_success [OF c ok' rd] unfolding req by (simp add: notion_throws_def url_of_def)
  then show ?thesis
    unfolding out by (simp add: plain_same_except_notion plain_urls)
qed

lemma POST_plain_github_throws:
  assumes "status (fst (POST_plain w req)) = 200"
  shows "same_except ''github_url'' (fst (POST_plain (github_throws w err) req)) (fst (POST_plain w req))
     \<and> js_get_opt (body (fst (POST_plain (github_throws w err) req))) ''github_url'' = JNull
     \<and> snd (POST_plain (github_throws w err) req) = all_calls"
proof -
  from POST_plain_200 [OF assms] obtain b i m a art where req: "req = Inr b"
    and c: "check_request b = Inr (Inr (fields_of b))"
    and ok: "stages_ok w (js_get_opt b ''project_idea'') (js_get_opt b ''special_instructions'')
               (js_get_opt b ''contributors'') i m a art"
    and rd: "plain_reads_ok m a art"
    and out: "POST_plain w req = (plain_result i m a art (url_of (createNotionPage w i m a))
                 (url_of (createGitHubRepo w i art m)), all_calls)"
    by blast
  have ok': "stages_ok (github_throws w err) (js_get_opt b ''project_idea'')
       (js_get_opt b ''special_instructions'') (js_get_opt b ''contributors'') i m a art"
    using ok by (simp add: stages_ok_github_throws)
  have "POST_plain (github_throws w err) req =
     (plain_result i m a art (url_of (createNotionPage w i m a)) JNull, all_calls)"
    using POST_plain_success [OF c ok' rd] unfolding req by (simp add: github_throws_def url_of_def)
  then show ?thesis
    unfolding out by (simp add: plain_same_except_github plain_urls)
qed

text \<open>
  C5. Take a run that is answered 200. In a world that differs only in that the Notion
  call throws, the handler still answers 200, \<open>notion_url\<close> is \<open>null\<close>, the GitHub
  call is still issued, and every other field of the response is the same; likewise when
  the GitHub call throws. This holds for both handlers.
\<close>

theorem publish_failures_contained:
  "(status (fst (POST w req)) = 200 \<longrightarrow>
      status (fst (POST (notion_throws w err) req)) = 200
    \<and> js_get_opt (body (fst (POST (notion_throws w err) req))) ''notion_url'' = JNull
    \<and> CreateGitHubRepo \<in> set (snd (POST (notion_throws w err) req))
    \<and> same_except ''notion_url'' (fst (POST (notion_throws w err) req)) (fst (POST w req))
    \<and> status (fst (POST (github_throws w err) req)) = 200
    \<and> js_get_opt (body (fst (POST (github_throws w err) req))) ''github_url'' = JNull
    \<and> CreateNotionPage \<in> set (snd (POST (github_throws w err) req))
    \<and> same_except ''github_url'' (fst (POST (github_throws w err) req)) (fst (POST w req)))
 \<and> (status (fst (POST_plain w req)) = 200 \<longrightarrow>
      status (fst (POST_plain (notion_throws w err) req)) = 200
    \<and> js_get_opt (body (fst (POST_plain (notion_throws w err) req))) ''notion_url'' = JNull
    \<and> CreateGitHubRepo \<in> set (snd (POST_plain (notion_throws w err) req))
    \<and> same_except ''notion_url'' (fst (POST_plain (notion_throws w err) req)) (fst (POST_plain w req))
    \<and> status (fst (POST_plain (github_throws w err) req)) = 200
    \<and> js_get_opt (body (fst (POST_plain (github_throws w err) req))) ''github_url'' = JNull
    \<and> CreateNotionPage \<in> set (snd (POST_plain (github_throws w err) req))
    \<and> same_except ''github_url'' (fst (POST_plain (github_throws w err) req)) (fst (POST_plain w req)))"
proof (intro conjI impI)
  assume a: "status (fst (POST w req)) = 200"
  note n = POST_notion_throws [OF a, of err] and g = POST_github_throws [OF a, of err]
  show "status (fst (POST (notion_throws w err) req)) = 200"
    using n a by (simp add: same_except_def)
  show "js_get_opt (body (fst (POST (notion_throws w err) req))) ''notion_url'' = JNull"
    using n by simp
  show "CreateGitHubRepo \<in> set (snd (POST (notion_throws w err) req))"
    using n by (simp add: all_calls_def)
  show "same_except ''notion_url'' (fst (POST (notion_throws w err) req)) (fst (POST w req))"
    using n by simp
  show "status (fst (POST (github_throws w err) req)) = 200"
    using g a by (simp add: same_except_def)
  show "js_get_opt (body (fst (POST (github_throws w err) req))) ''github_url'' = JNull"
    using g by simp
  show "CreateNotionPage \<in> set (snd (POST (github_throws w err) req))"
    using g by (simp add: all_calls_def)
  show "same_except ''github_url'' (fst (POST (github_throws w err) req)) (fst (POST w req))"
    using g by simp
next
  assume a: "status (fst (POST_plain w req)) = 200"
  note n = POST_plain_notion_throws [OF a, of err] and g = POST_plain_github_throws [OF a, of err]
  show "status (fst (POST_plain (notion_throws w err) req)) = 200"
    using n a by (simp add: same_except_def)
  show "js_get_opt (body (fst (POST_plain (notion_throws w err) req))) ''notion_url'' = JNull"
    using n by simp
  show "CreateGitHubRepo \<in> set (snd (POST_plain (notion_throws w err) req))"
    using n by (simp add: all_calls_def)
  show "same_except ''notion_url'' (fst (POST_plain (notion_throws w err) req)) (fst (POST_plain w req))"
    using n by simp
  show "status (fst (POST_plain (github_throws w err) req)) = 200"
    using g a by (simp add: same_except_def)
  show "js_get_opt (body (fst (POST_plain (github_throws w err) req))) ''github_url'' = JNull"
    using g by simp
  show "CreateNotionPage \<in> set (snd (POST_plain (github_throws w err) req))"
    using g by (simp add: all_calls_def)
  show "same_except ''github_url'' (fst (POST_plain (github_throws w err) req)) (fst (POST_plain w req))"
    using g by simp
qed

lemmas handler_defs = POST_def POST_try_def POST_steps_def POST_plain_def POST_plain_try_def
  POST_plain_steps_def check_request_def bnd_def lift_def ret_def await_call_def
  publish_notion_def publish_github_def try_catch_def trim_def is_ws_def
  enhanced_result_def plain_result_def Response_json_def js_get_opt_def js_or_def

lemma sample_200: "status (fst (POST sample_env (Inr sample_body))) = 200"
  by (simp add: handler_defs sample_env_def sample_body_def)

lemma sample_plain_200: "status (fst (POST_plain sample_env (Inr sample_body))) = 200"
  by (simp add: handler_defs sample_env_def sample_body_def)

theorem agent_insights_constant_witness:
  "status (fst (POST sample_env (Inr sample_body))) = 200
   \<and> js_get_opt (body (fst (POST sample_env (Inr sample_body)))) ''agent_insights'' = JObj
        [(''confidence_score'', JNum 85),
         (''web_search_performed'', JBool False),
         (''technical_research_conducted'', JBool True),
         (''market_analysis_performed'', JBool False),
         (''enhancement_applied'', JBool True)]"
  using agent_insights_constant [of sample_env "Inr sample_body" sample_env "Inr sample_body"]
    sample_200 by simp


theorem publish_failures_contained_witness:
  "status (fst (POST sample_env (Inr sample_body))) = 200
   \<and> status (fst (POST_plain sample_env (Inr sample_body))) = 200
   \<and> js_get_opt (body (fst (POST sample_env (Inr sample_body)))) ''notion_url'' = JStr ''notion.so/page''
   \<and> status (fst (POST (notion_throws sample_env (\<lambda>i m a. Error ''NOTION_API_KEY or NOTION_PARENT_PAGE_ID not configured''))
        (Inr sample_body))) = 200
   \<and> js_get_opt (body (fst (POST (notion_throws sample_env (\<lambda>i m a. Error ''NOTION_API_KEY or NOTION_PARENT_PAGE_ID not configured''))
        (Inr sample_body)))) ''notion_url'' = JNull
   \<and> status (fst (POST_plain (github_throws sample_env (\<lambda>i m a. Error ''NOTION_API_KEY or NOTION_PARENT_PAGE_ID not configured''))
        (Inr sample_body))) = 200"
proof -
  have n: "js_get_opt (body (fst (POST sample_env (Inr sample_body)))) ''notion_url'' = JStr ''notion.so/page''"
    by (simp add: handler_defs sample_env_def sample_body_def)
  show ?thesis
    using publish_failures_contained [of sample_env "Inr sample_body"
        "\<lambda>i m a. Error ''NOTION_API_KEY or NOTION_PARENT_PAGE_ID not configured''"]
      sample_200 sample_plain_200 n
    by blast
qed

section \<open>Properties of the web search agent\<close>

lemma search_miss_eq:
  "search_miss w query options s =
     (case search_attempt w query options s of
        (Inr r, s1) \<Rightarrow> (Inr r, s1\<lparr>cache := (cache s1)(cacheKey w query options \<mapsto> r)\<rparr>)
      | (Inl e, s1) \<Rightarrow> (Inr (failed_search query e), s1))"
  by (simp add: search_miss_def try_catch_def bnd_def cache_set_def ret_def
      split: prod.splits sum.splits)


lemma search_attempt_no_key:
  assumes "no_key (SERPER_API_KEY w)"
  shows "search_attempt w query options s = (Inr (unavailable query), s)"
  using assms
  by (simp add: search_attempt_def searchWithSerper_def analyzeSearchResults_def
      bnd_def ret_def lift_def js_get_opt_def)

lemma degraded_unavailable: "degraded (unavailable query)"
  by (simp add: degraded_def unavailable_def js_get_opt_def)

lemma search_miss_no_key:
  assumes "no_key (SERPER_API_KEY w)"
  shows "search_miss w query options s =
    (Inr (unavailable query), s\<lparr>cache := (cache s)(cacheKey w query options \<mapsto> unavailable query)\<rparr>)"
  by (simp add: search_miss_eq search_attempt_no_key [OF assms])

lemma search_no_key:
  assumes "no_key (SERPER_API_KEY w)" and "degraded_cache s"
  shows "\<exists>r s'. search w query options s = (Inr r, s') \<and> degraded r \<and> degraded_cache s'
     \<and> issued s' = issued s"
proof (cases "cache s (cacheKey w query options)")
  case None
  then show ?thesis
    using assms(2)
    by (simp add: search_def search_miss_no_key [OF assms(1)] degraded_unavailable
        degraded_cache_def)
next
  case (Some r)
  then show ?thesis
    using assms(2) by (auto simp: search_def degraded_cache_def)
qed

lemma settle_all_no_key:
  "no_key (SERPER_API_KEY w) \<Longrightarrow> degraded_cache s \<Longrightarrow>
     \<exists>rs s'. settle_all w ps s = (Inr rs, s') \<and> degraded_cache s' \<and> issued s' = issued s"
proof (induction w ps s rule: settle_all.induct)
  case (1 w s)
  then show ?case by (simp add: ret_def)
next
  case (2 w query cached rest s)
  from 2(1) [OF 2(2,3)] obtain rs s' where "settle_all w rest s = (Inr rs, s')"
    "degraded_cache s'" "issued s' = issued s" by blast
  then show ?case by (simp add: ret_def bnd_def)
next
  case (3 w query rest s)
  let ?s1 = "s\<lparr>cache := (cache s)(cacheKey w query (JObj []) \<mapsto> unavailable query)\<rparr>"
  have d1: "degraded_cache ?s1"
    using 3(3) by (simp add: degraded_cache_def degraded_unavailable)
  have sm: "search_miss w query (JObj []) s = (Inr (unavailable query), ?s1)"
    using search_miss_no_key 3(2) by simp
  from 3(1) [OF 3(2) d1] obtain rs s' where "settle_all w rest ?s1 = (Inr rs, s')"
    "degraded_cache s'" "issued s' = issued ?s1" by blast
  then show ?case by (simp add: sm bnd_def ret_def)
qed

lemma run_op_no_key:
  assumes "no_key (SERPER_API_KEY w)" and "degraded_cache s"
  shows "degraded_cache (run_op w op s)"
proof (cases op)
  case (OpSearch query options)
  then show ?thesis using search_no_key [OF assms, of query options] by auto
next
  case (OpBatch queries)
  from settle_all_no_key [OF assms, of "batch_lookups w queries s"]
  obtain rs s' where a: "search_all w queries s = (Inr rs, s')" and d: "degraded_cache s'"
    by (auto simp: search_all_def batch_lookups_def)
  have "cache (snd (searchMultipleQueries w queries s)) = cache s'"
    using a
    by (simp add: searchMultipleQueries_def bnd_def synthesizeMultipleSearches_def
        await_llm_def ret_def split: sum.splits)
  with d OpBatch show ?thesis by (simp add: degraded_cache_def)
next
  case OpClear
  then show ?thesis by (simp add: clearCache_def degraded_cache_def)
qed

lemma run_ops_no_key:
  assumes "no_key (SERPER_API_KEY w)"
  shows "degraded_cache s \<Longrightarrow> degraded_cache (run_ops w ops s)"
  unfolding run_ops_def
  by (induction ops arbitrary: s) (simp_all add: run_op_no_key [OF assms])

lemma degraded_cache_new: "degraded_cache new_agent"
  by (simp add: degraded_cache_def new_agent_def)

text \<open>
  C3. When \<open>SERPER_API_KEY\<close> is not set (or empty), then after any history of
  operations on a new agent, \<open>search\<close> resolves for every query and options, with
  \<open>results = []\<close> and an analysis that is not \<open>null\<close> and whose summary contains the
  hint to configure the key; no external call is issued.
\<close>

theorem search_without_credential:
  assumes "no_key (SERPER_API_KEY w)"
  shows "\<exists>r s'. search w query options (run_ops w history new_agent) = (Inr r, s')
     \<and> js_get_opt r ''results'' = JArr []
     \<and> \<not> nullish (js_get_opt r ''analysis'')
     \<and> (\<exists>summary. js_get_opt (js_get_opt r ''analysis'') ''summary'' = JStr summary
          \<and> str_includes summary ''Configure SERPER_API_KEY'')
     \<and> issued s' = issued (run_ops w history new_agent)"
proof -
  have "degraded_cache (run_ops w history new_agent)"
    using run_ops_no_key [OF assms degraded_cache_new] .
  from search_no_key [OF assms this, of query options]
  obtain r s' where a: "search w query options (run_ops w history new_agent) = (Inr r, s')"
    and d: "degraded r" and i: "issued s' = issued (run_ops w history new_agent)"
    by blast
  from d have "\<exists>summary. js_get_opt (js_get_opt r ''analysis'') ''summary'' = JStr summary
          \<and> str_includes summary ''Configure SERPER_API_KEY''"
    by (auto simp: degraded_def split: jsval.splits)
  with a d i show ?thesis by (auto simp: degraded_def)
qed















lemma search_miss_fst:
  "fst (search_miss w query options s) = Inr (entry_of query (fst (search_attempt w query options s)))"
  by (simp add: search_miss_eq entry_of_def split: prod.splits sum.splits)

lemma length_underlying: "length (underlying w ps s) = length ps"
  by (induction w ps s rule: underlying.induct) simp_all

lemma settle_all_underlying:
  "\<exists>s1. settle_all w ps s = (Inr (map2 entry_of (map fst ps) (underlying w ps s)), s1)"
proof (induction w ps s rule: settle_all.induct)
  case (1 w s)
  show ?case by (simp add: ret_def)
next
  case (2 w query cached rest s)
  from 2 [of s] obtain s1 where
    "settle_all w rest s = (Inr (map2 entry_of (map fst rest) (underlying w rest s)), s1)" ..
  then show ?case by (simp add: bnd_def ret_def entry_of_def)
next
  case (3 w query rest s)
  obtain r s1 where sm: "search_miss w query (JObj []) s = (r, s1)"
    by (cases "search_miss w query (JObj []) s")
  have r: "r = Inr (entry_of query (fst (search_attempt w query (JObj []) s)))"
    using search_miss_fst [of w query "JObj []" s] sm by simp
  from 3 [of s1] obtain s2 where
    "settle_all w rest s1 = (Inr (map2 entry_of (map fst rest) (underlying w rest s1)), s2)" ..
  then show ?case by (simp add: bnd_def ret_def sm r)
qed

lemma failed_search_fields:
  "js_get_opt (failed_search query e) ''query'' = JStr query"
  "js_get_opt (failed_search query e) ''results'' = JArr []"
  "js_get_opt (failed_search query e) ''analysis'' = JNull"
  "js_get_opt (failed_search query e) ''error'' = JStr (message e)"
  by (simp_all add: failed_search_def js_get_opt_def)

text \<open>
  C4, as amended. The searches of a batch always settle, to as many entries as there are
  queries and in their order: where the underlying search of a query rejects with \<open>e\<close>,
  the entry has the query, \<open>error\<close> the message of \<open>e\<close>, \<open>results = []\<close> and
  \<open>analysis = null\<close>; where it resolves, the entry is its result. The batch then
  resolves with these entries as \<open>individualResults\<close> when the synthesis call resolves,
  and rejects with the error of the synthesis call otherwise.
\<close>

theorem batch_contains_failures:
  "\<exists>rs s1. search_all w queries s = (Inr rs, s1)
     \<and> length rs = length queries
     \<and> (\<forall>i<length queries.
          (\<forall>e. underlying w (batch_lookups w queries s) s ! i = Inl e \<longrightarrow>
               js_get_opt (rs ! i) ''query'' = JStr (queries ! i)
             \<and> js_get_opt (rs ! i) ''error'' = JStr (message e)
             \<and> js_get_opt (rs ! i) ''results'' = JArr []
             \<and> js_get_opt (rs ! i) ''analysis'' = JNull)
        \<and> (\<forall>r. underlying w (batch_lookups w queries s) s ! i = Inr r \<longrightarrow> rs ! i = r))
     \<and> fst (searchMultipleQueries w queries s) =
         (case callLLM w (length (issued s1)) (SynthesizeMultipleSearches queries rs) of
            Inl e \<Rightarrow> Inl e
          | Inr synthesis \<Rightarrow>
              Inr (JObj [(''individualResults'', JArr rs), (''synthesis'', synthesis)]))"
proof -
  let ?ps = "batch_lookups w queries s"
  let ?rs = "map2 entry_of (map fst ?ps) (underlying w ?ps s)"
  from settle_all_underlying [of w ?ps s] obtain s1 where
    sa: "search_all w queries s = (Inr ?rs, s1)"
    by (auto simp: search_all_def batch_lookups_def)
  have fsts: "map fst ?ps = queries"
    by (simp add: batch_lookups_def comp_def)
  have len: "length ?rs = length queries"
    by (simp add: length_underlying fsts) (simp add: batch_lookups_def)
  have nth: "?rs ! i = entry_of (queries ! i) (underlying w ?ps s ! i)" if "i < length queries" for i
  proof -
    have "i < length (underlying w ?ps s)"
      using that by (simp add: length_underlying) (simp add: batch_lookups_def)
    then show ?thesis using that by (simp add: fsts)
  qed
  have entries: "\<forall>i<length queries.
          (\<forall>e. underlying w ?ps s ! i = Inl e \<longrightarrow>
               js_get_opt (?rs ! i) ''query'' = JStr (queries ! i)
             \<and> js_get_opt (?rs ! i) ''error'' = JStr (message e)
             \<and> js_get_opt (?rs ! i) ''results'' = JArr []
             \<and> js_get_opt (?rs ! i) ''analysis'' = JNull)
        \<and> (\<forall>r. underlying w ?ps s ! i = Inr r \<longrightarrow> ?rs ! i = r)"
  proof (intro allI impI)
    fix i assume i: "i < length queries"
    show "(\<forall>e. underlying w ?ps s ! i = Inl e \<longrightarrow>
               js_get_opt (?rs ! i) ''query'' = JStr (queries ! i)
             \<and> js_get_opt (?rs ! i) ''error'' = JStr (message e)
             \<and> js_get_opt (?rs ! i) ''results'' = JArr []
             \<and> js_get_opt (?rs ! i) ''analysis'' = JNull)
        \<and> (\<forall>r. underlying w ?ps s ! i = Inr r \<longrightarrow> ?rs ! i = r)"
      unfolding nth [OF i] by (simp add: entry_of_def failed_search_fields)
  qed
  have smq: "fst (searchMultipleQueries w queries s) =
         (case callLLM w (length (issued s1)) (SynthesizeMultipleSearches queries ?rs) of
            Inl e \<Rightarrow> Inl e
          | Inr synthesis \<Rightarrow>
              Inr (JObj [(''individualResults'', JArr ?rs), (''synthesis'', synthesis)]))"
    by (simp add: searchMultipleQueries_def bnd_def sa synthesizeMultipleSearches_def
        await_llm_def ret_def split: sum.splits)
  from sa len entries smq show ?thesis by blast
qed

lemmas search_defs = search_def search_miss_def search_attempt_def searchWithSerper_def
  analyzeSearchResults_def relevant_hit_def cacheKey_def cache_set_def await_fetch_def
  await_llm_def failed_search_def unavailable_def no_key_def new_agent_def
  searchMultipleQueries_def search_all_def synthesizeMultipleSearches_def
  bnd_def ret_def lift_def throw_def try_catch_def js_get_opt_def js_or_def
  batch_lookups_def run_ops_def clearCache_def

theorem search_without_credential_witness:
  "no_key (SERPER_API_KEY offline_world)
   \<and> (\<exists>r s'. search offline_world ''x'' (JObj [])
          (run_ops offline_world [OpSearch ''y'' (JObj []), OpBatch [''x'', ''z'']] new_agent) = (Inr r, s')
     \<and> js_get_opt r ''results'' = JArr []
     \<and> \<not> nullish (js_get_opt r ''analysis'')
     \<and> (\<exists>summary. js_get_opt (js_get_opt r ''analysis'') ''summary'' = JStr summary
          \<and> str_includes summary ''Configure SERPER_API_KEY'')
     \<and> issued s' = issued (run_ops offline_world [OpSearch ''y'' (JObj []), OpBatch [''x'', ''z'']] new_agent))"
proof -
  have k: "no_key (SERPER_API_KEY offline_world)"
    by (simp add: no_key_def offline_world_def)
  show ?thesis
    using search_without_credential [OF k, of "''x''" "JObj []"
        "[OpSearch ''y'' (JObj []), OpBatch [''x'', ''z'']]"] k
    by blast
qed


text \<open>
  C4 as stated fails: the provider rejects for the second of three queries only, and the
  batch rejects, because the synthesis call rejects.
\<close>

theorem batch_contains_failures_counterexample:
  "map isl (underlying (batch_world (Inl (Error ''OpenAI API error: rate limit'')))
      (batch_lookups (batch_world (Inl (Error ''OpenAI API error: rate limit'')))
         [''a'', ''b'', ''c''] new_agent) new_agent)
     = [False, True, False]
   \<and> fst (searchMultipleQueries (batch_world (Inl (Error ''OpenAI API error: rate limit'')))
        [''a'', ''b'', ''c''] new_agent)
     = Inl (Error ''OpenAI API error: rate limit'')"
  by (simp add: search_defs batch_world_def one_hit_def analysed_def)

theorem batch_contains_failures_witness:
  "underlying (batch_world (Inr (JStr ''synthesis'')))
      (batch_lookups (batch_world (Inr (JStr ''synthesis''))) [''a'', ''b'', ''c''] new_agent)
      new_agent ! 1 = Inl (Error ''fetch failed'')
   \<and> (\<exists>rs s1. search_all (batch_world (Inr (JStr ''synthesis''))) [''a'', ''b'', ''c''] new_agent
          = (Inr rs, s1)
     \<and> length rs = 3
     \<and> underlying (batch_world (Inr (JStr ''synthesis'')))
          (batch_lookups (batch_world (Inr (JStr ''synthesis''))) [''a'', ''b'', ''c''] new_agent)
          new_agent ! 0 = Inr (rs ! 0)
     \<and> js_get_opt (rs ! 1) ''query'' = JStr ''b''
     \<and> js_get_opt (rs ! 1) ''error'' = JStr ''fetch failed''
     \<and> js_get_opt (rs ! 1) ''results'' = JArr []
     \<and> js_get_opt (rs ! 1) ''analysis'' = JNull
     \<and> underlying (batch_world (Inr (JStr ''synthesis'')))
          (batch_lookups (batch_world (Inr (JStr ''synthesis''))) [''a'', ''b'', ''c''] new_agent)
          new_agent ! 2 = Inr (rs ! 2)
     \<and> fst (searchMultipleQueries (batch_world (Inr (JStr ''synthesis''))) [''a'', ''b'', ''c''] new_agent)
         = Inr (JObj [(''individualResults'', JArr rs), (''synthesis'', JStr ''synthesis'')]))"
proof -
  let ?w = "batch_world (Inr (JStr ''synthesis''))"
  let ?u = "underlying ?w (batch_lookups ?w [''a'', ''b'', ''c''] new_agent) new_agent"
  have u: "?u ! 1 = Inl (Error ''fetch failed'')"
    by (simp add: search_defs batch_world_def one_hit_def analysed_def)
  have u0: "\<not> isl (?u ! 0)"
    by (simp add: search_defs batch_world_def one_hit_def analysed_def)
  have u2: "\<not> isl (?u ! 2)"
    by (simp add: search_defs batch_world_def one_hit_def analysed_def)
  from u0 obtain r0 where r0: "?u ! 0 = Inr r0" by (cases "?u ! 0") simp_all
  from u2 obtain r2 where r2: "?u ! 2 = Inr r2" by (cases "?u ! 2") simp_all
  have l: "callLLM ?w n (SynthesizeMultipleSearches qs rs) = Inr (JStr ''synthesis'')" for n qs rs
    by (simp add: batch_world_def analysed_def)
  from batch_contains_failures [of ?w "[''a'', ''b'', ''c'']" new_agent]
  obtain rs s1 where sa: "search_all ?w [''a'', ''b'', ''c''] new_agent = (Inr rs, s1)"
    and len: "length rs = length [''a'', ''b'', ''c'']"
    and ent: "\<forall>i<length [''a'', ''b'', ''c''].
          (\<forall>e. ?u ! i = Inl e \<longrightarrow>
               js_get_opt (rs ! i) ''query'' = JStr ([''a'', ''b'', ''c''] ! i)
             \<and> js_get_opt (rs ! i) ''error'' = JStr (message e)
             \<and> js_get_opt (rs ! i) ''results'' = JArr []
             \<and> js_get_opt (rs ! i) ''analysis'' = JNull)
        \<and> (\<forall>r. ?u ! i = Inr r \<longrightarrow> rs ! i = r)"
    and smq: "fst (searchMultipleQueries ?w [''a'', ''b'', ''c''] new_agent) =
         (case callLLM ?w (length (issued s1)) (SynthesizeMultipleSearches [''a'', ''b'', ''c''] rs) of
            Inl e \<Rightarrow> Inl e
          | Inr synthesis \<Rightarrow>
              Inr (JObj [(''individualResults'', JArr rs), (''synthesis'', synthesis)]))"
    by blast
  from ent u have e1: "js_get_opt (rs ! 1) ''query'' = JStr ''b''
      \<and> js_get_opt (rs ! 1) ''error'' = JStr ''fetch failed''
      \<and> js_get_opt (rs ! 1) ''results'' = JArr []
      \<and> js_get_opt (rs ! 1) ''analysis'' = JNull"
    by (auto dest!: spec [of _ 1])
  from ent r0 have e0: "?u ! 0 = Inr (rs ! 0)" by (auto dest!: spec [of _ 0])
  from ent r2 have e2: "?u ! 2 = Inr (rs ! 2)" by (auto dest!: spec [of _ 2])
  from smq have "fst (searchMultipleQueries ?w [''a'', ''b'', ''c''] new_agent)
         = Inr (JObj [(''individualResults'', JArr rs), (''synthesis'', JStr ''synthesis'')])"
    by (simp add: l)
  with u sa len e0 e1 e2 show ?thesis by simp
qed


section \<open>Properties of the validation and research agents\<close>







































section \<open>Properties of the knowledge base\<close>


































section \<open>Properties of the orchestrator\<close>

lemma includes_iff: "str_includes s t \<longleftrightarrow> (\<exists>p r. s = p @ t @ r)"
proof (induction s)
  case Nil
  show ?case by auto
next
  case (Cons c s)
  show ?case
  proof
    assume "str_includes (c # s) t"
    then consider "prefix t (c # s)" | "str_includes s t" by auto
    then show "\<exists>p r. c # s = p @ t @ r"
    proof cases
      case 1
      then obtain r where "c # s = t @ r" by (auto simp: prefix_def)
      then have "c # s = [] @ t @ r" by simp
      then show ?thesis by blast
    next
      case 2
      with Cons.IH obtain p r where "s = p @ t @ r" by blast
      then have "c # s = (c # p) @ t @ r" by simp
      then show ?thesis by blast
    qed
  next
    assume "\<exists>p r. c # s = p @ t @ r"
    then obtain p r where pr: "c # s = p @ t @ r" by blast
    show "str_includes (c # s) t"
    proof (cases p)
      case Nil
      with pr have "prefix t (c # s)" by (simp add: prefix_def)
      then show ?thesis by simp
    next
      case (Cons a p')
      with pr have "s = p' @ t @ r" by simp
      with Cons.IH have "str_includes s t" by blast
      then show ?thesis by simp
    qed
  qed
qed

lemma filter_count_lines:
  "int (length (filter (\<lambda>l. str_includes l (units t)) ls)) = lines_containing t ls"
  by (simp add: lines_containing_def contains_substring_def includes_iff
      length_filter_conv_card)

text \<open>
  C9. The confidence score is \<open>min(100, 20 r + 25 v + 15 e)\<close>, where \<open>r\<close>, \<open>v\<close>, \<open>e\<close>
  are the numbers of log lines containing \<open>research\<close>, \<open>validation\<close> and
  \<open>enhancement\<close>; it lies between 0 and 100, and two logs with the same three counts
  have the same score.
\<close>

theorem confidence_score_from_counts:
  "calculateConfidenceScore a =
     min 100 (20 * lines_containing ''research'' (executionLog a)
            + 25 * lines_containing ''validation'' (executionLog a)
            + 15 * lines_containing ''enhancement'' (executionLog a))
   \<and> 0 \<le> calculateConfidenceScore a \<and> calculateConfidenceScore a \<le> 100
   \<and> (lines_containing ''research'' (executionLog a) = lines_containing ''research'' (executionLog b)
      \<and> lines_containing ''validation'' (executionLog a) = lines_containing ''validation'' (executionLog b)
      \<and> lines_containing ''enhancement'' (executionLog a) = lines_containing ''enhancement'' (executionLog b)
      \<longrightarrow> calculateConfidenceScore a = calculateConfidenceScore b)"
proof -
  have eq: "calculateConfidenceScore x =
     min 100 (20 * lines_containing ''research'' (executionLog x)
            + 25 * lines_containing ''validation'' (executionLog x)
            + 15 * lines_containing ''enhancement'' (executionLog x))" for x
    unfolding calculateConfidenceScore_def researchDepth_def validationChecks_def
      enhancementSteps_def filter_count_lines
    by (simp add: mult.commute)
  have nonneg: "0 \<le> lines_containing t ls" for t ls
    by (simp add: lines_containing_def)
  have "0 \<le> calculateConfidenceScore a"
    unfolding eq using nonneg by (simp add: add_nonneg_nonneg)
  moreover have "calculateConfidenceScore a \<le> 100"
    unfolding eq by simp
  ultimately show ?thesis
    using eq [of a] eq [of b] by simp
qed

theorem confidence_score_from_counts_witness:
  "lines_containing ''research'' sample_log = lines_containing ''research'' other_log
   \<and> lines_containing ''validation'' sample_log = lines_containing ''validation'' other_log
   \<and> lines_containing ''enhancement'' sample_log = lines_containing ''enhancement'' other_log
   \<and> calculateConfidenceScore \<lparr>executionLog = sample_log\<rparr> = 45
   \<and> calculateConfidenceScore \<lparr>executionLog = other_log\<rparr> = 45"
proof -
  have c: "lines_containing ''research'' sample_log = 1"
    "lines_containing ''research'' other_log = 1"
    "lines_containing ''validation'' sample_log = 1"
    "lines_containing ''validation'' other_log = 1"
    "lines_containing ''enhancement'' sample_log = 0"
    "lines_containing ''enhancement'' other_log = 0"
    unfolding filter_count_lines [symmetric]
    by (simp_all add: sample_log_def other_log_def units_def log_def)
  show ?thesis
    using confidence_score_from_counts
      [of "\<lparr>executionLog = sample_log\<rparr>" "\<lparr>executionLog = other_log\<rparr>"]
    by (simp add: c)
qed

end
